theory Spec2Isabelle
  imports Main "HOL-Library.Multiset"
begin

section \<open>Errors\<close>

text \<open>
  The Python exceptions that the two source files can raise. \<open>ConfigurationError\<close> is
  the error the specification names for the environment adapter; no statement of the
  source constructs it.
\<close>

datatype error =
    KeyError string
  | ValueError string
  | IndexError
  | RuntimeError
  | IOError
  | ZeroDivisionError
  | AttributeError
  | TypeError
  | ConfigurationError

section \<open>Distributed environment adapter (azureml_adapter.py)\<close>

text \<open>\<open>os.environ\<close>: a dictionary from variable names to their string values.\<close>

type_synonym environ = "string \<rightharpoonup> string"

text \<open>\<open>os.environ[k]\<close> as an expression: a missing key raises \<open>KeyError\<close>.\<close>

definition environ_get :: "environ \<Rightarrow> string \<Rightarrow> error + string" where
  "environ_get env k = (case env k of None \<Rightarrow> Inl (KeyError k) | Some v \<Rightarrow> Inr v)"

text \<open>
  \<open>s.split(':')\<close> with an explicit separator: the pieces between the separators, in
  order; a string without separator gives the one-element list of itself, the empty
  string gives \<open>['']\<close>.
\<close>

fun split_on :: "char \<Rightarrow> string \<Rightarrow> string list" where
  "split_on c [] = [[]]"
| "split_on c (x # xs) =
     (if x = c then [] # split_on c xs
      else (case split_on c xs of [] \<Rightarrow> [[x]] | p # ps \<Rightarrow> (x # p) # ps))"

text \<open>\<open>str(n)\<close> for an integer: decimal digits, with a minus sign for a negative number.\<close>

definition digit_char :: "nat \<Rightarrow> char" where
  "digit_char d = ''0123456789'' ! d"

fun str_nat :: "nat \<Rightarrow> string" where
  "str_nat n = (if n < 10 then [digit_char n] else str_nat (n div 10) @ [digit_char (n mod 10)])"

declare str_nat.simps [simp del]

definition str_int :: "int \<Rightarrow> string" where
  "str_int i = (if i < 0 then CHR ''-'' # str_nat (nat (- i)) else str_nat (nat i))"







text \<open>
  \<open>set_environment_variables_for_nccl_backend(single_node, master_port)\<close>. The
  function mutates \<open>os.environ\<close>; the model takes the environment and returns the new
  one, or the exception that ends the call. The \<open>print\<close> calls write to standard
  output only, but the first one reads \<open>NCCL_SOCKET_IFNAME\<close> before it is assigned,
  and that read is part of the model. The later ones read variables that are set by then.
\<close>

definition set_environment_variables_for_nccl_backend ::
  "bool \<Rightarrow> int \<Rightarrow> environ \<Rightarrow> error + environ" where
  "set_environment_variables_for_nccl_backend single_node master_port env =
     (case environ_get env ''OMPI_COMM_WORLD_RANK'' of Inl e \<Rightarrow> Inl e | Inr rank \<Rightarrow>
      let env1 = env(''RANK'' \<mapsto> rank) in
      case environ_get env1 ''OMPI_COMM_WORLD_SIZE'' of Inl e \<Rightarrow> Inl e | Inr wsize \<Rightarrow>
      let env2 = env1(''WORLD_SIZE'' \<mapsto> wsize) in
      case (if \<not> single_node then
              (case environ_get env2 ''AZ_BATCH_MASTER_NODE'' of Inl e \<Rightarrow> Inl e
               | Inr node \<Rightarrow>
                   (case split_on CHR '':'' node of
                      [] \<Rightarrow> Inl IndexError
                    | addr # _ \<Rightarrow>
                        let env3 = env2(''MASTER_ADDR'' \<mapsto> addr) in
                        Inr (if env3 ''MASTER_PORT'' = None
                             then env3(''MASTER_PORT'' \<mapsto> str_int master_port)
                             else env3)))
            else
              (case environ_get env2 ''AZ_BATCHAI_MPI_MASTER_NODE'' of Inl e \<Rightarrow> Inl e
               | Inr node \<Rightarrow>
                   Inr (env2(''MASTER_ADDR'' \<mapsto> node, ''MASTER_PORT'' \<mapsto> ''54965'')))) of
        Inl e \<Rightarrow> Inl e
      | Inr env4 \<Rightarrow>
          (case environ_get env4 ''NCCL_SOCKET_IFNAME'' of Inl e \<Rightarrow> Inl e
           | Inr original \<Rightarrow> Inr (env4(''NCCL_SOCKET_IFNAME'' \<mapsto> ''^docker0,lo''))))"








text \<open>
  Three launcher environments used as concrete inputs: a multi-node job whose master-node
  descriptor carries no port, the same job with an explicit \<open>MASTER_PORT\<close>, and a
  single-node job.
\<close>

definition azure_env :: environ where
  "azure_env =
     [''OMPI_COMM_WORLD_RANK'' \<mapsto> ''0'', ''OMPI_COMM_WORLD_SIZE'' \<mapsto> ''4'',
      ''AZ_BATCH_MASTER_NODE'' \<mapsto> ''10.0.0.4'', ''NCCL_SOCKET_IFNAME'' \<mapsto> ''eth0'']"

definition port_env :: environ where
  "port_env =
     [''OMPI_COMM_WORLD_RANK'' \<mapsto> ''1'', ''OMPI_COMM_WORLD_SIZE'' \<mapsto> ''4'',
      ''AZ_BATCH_MASTER_NODE'' \<mapsto> ''10.0.0.4:6000'', ''NCCL_SOCKET_IFNAME'' \<mapsto> ''eth0'',
      ''MASTER_PORT'' \<mapsto> ''29500'']"


section \<open>Label reconstruction (bert_dataset.py, BertSingleFileDataset)\<close>

text \<open>
  A one-dimensional \<open>int64\<close> tensor is a list of integers; no arithmetic is done on the
  entries, so their range plays no role. The two configured sizes
  \<open>args.max_predictions_per_seq\<close> and \<open>args.max_seq_length\<close> come from the arguments
  module, which is not part of the sources at hand: they are parameters here, and natural
  numbers.
\<close>

text \<open>
  \<open>_get_masked_token_count\<close>: \<open>(masked_lm_positions == 0).nonzero()\<close> lists the
  indices of the zero entries in increasing order; the first one is taken when there is
  one, the configured count otherwise.
\<close>

definition padded_mask_indices :: "int list \<Rightarrow> nat list" where
  "padded_mask_indices masked_lm_positions =
     filter (\<lambda>i. masked_lm_positions ! i = 0) [0 ..< length masked_lm_positions]"

definition get_masked_token_count :: "nat \<Rightarrow> int list \<Rightarrow> nat" where
  "get_masked_token_count max_predictions_per_seq masked_lm_positions =
     (if length (padded_mask_indices masked_lm_positions) \<noteq> 0
      then hd (padded_mask_indices masked_lm_positions)
      else max_predictions_per_seq)"

text \<open>
  \<open>labels[index] = values\<close> with an index tensor. The values must have as many entries
  as the index, or exactly one entry, which is then used for every index
  (\<open>RuntimeError\<close> otherwise). An index \<open>p\<close> with \<open>-n \<le> p < 0\<close> counts from the end,
  an index outside \<open>[-n, n)\<close> raises \<open>IndexError\<close>. The writes are done in the order
  of the index, so that of two writes to one position the later one stays (the library
  leaves the outcome of a repeated index open).
\<close>

fun index_writes :: "int list \<Rightarrow> int list \<Rightarrow> int list \<Rightarrow> error + int list" where
  "index_writes labels [] vs = Inr labels"
| "index_writes labels (p # ps) [] = Inl RuntimeError"
| "index_writes labels (p # ps) (v # vs) =
     (let n = int (length labels) in
      if p < - n \<or> n \<le> p then Inl IndexError
      else index_writes (labels[nat (if p < 0 then p + n else p) := v]) ps vs)"

definition index_put :: "int list \<Rightarrow> int list \<Rightarrow> int list \<Rightarrow> error + int list" where
  "index_put labels index values =
     (if length values = length index then index_writes labels index values
      else if length values = 1 then index_writes labels index (replicate (length index) (hd values))
      else Inl RuntimeError)"

text \<open>
  \<open>_build_masked_lm_labels\<close>: a vector of \<open>max_seq_length\<close> entries \<open>-1\<close>, into which
  the first \<open>masked_token_count\<close> values are written at the first
  \<open>masked_token_count\<close> positions. A slice \<open>xs[:k]\<close> with \<open>k \<ge> 0\<close> is \<open>take k xs\<close>.
\<close>

definition build_masked_lm_labels ::
  "nat \<Rightarrow> nat \<Rightarrow> int list \<Rightarrow> int list \<Rightarrow> error + int list" where
  "build_masked_lm_labels max_seq_length max_predictions_per_seq masked_lm_positions masked_lm_ids =
     (let masked_token_count = get_masked_token_count max_predictions_per_seq masked_lm_positions;
          masked_lm_labels = replicate max_seq_length (- 1)
      in index_put masked_lm_labels
           (take masked_token_count masked_lm_positions)
           (take masked_token_count masked_lm_ids))"

text \<open>
  The count as the specification words it: the index of the first zero among the first
  \<open>max_predictions\<close> entries, and \<open>max_predictions\<close> when there is none among them.
\<close>

definition spec_masked_token_count :: "nat \<Rightarrow> int list \<Rightarrow> nat" where
  "spec_masked_token_count max_predictions masked_positions =
     (if 0 \<in> set (take max_predictions masked_positions)
      then length (takeWhile (\<lambda>p. p \<noteq> 0) masked_positions)
      else max_predictions)"

section \<open>Multi-shard streaming loader (bert_dataset.py, BertMultiFileDataloader)\<close>

subsection \<open>What the loader builds on\<close>

text \<open>
  \<open>random.shuffle(x)\<close> of the standard library: for \<open>i\<close> from \<open>len(x) - 1\<close> down to 1
  it draws \<open>j = randbelow(i + 1)\<close> and swaps \<open>x[i]\<close> and \<open>x[j]\<close>. The random source is
  a parameter; its draw is reduced modulo the bound, so that every function is a source.
\<close>

fun shuffle_loop :: "(nat \<Rightarrow> nat) \<Rightarrow> nat \<Rightarrow> 'a list \<Rightarrow> 'a list" where
  "shuffle_loop randbelow 0 xs = xs"
| "shuffle_loop randbelow (Suc i) xs =
     (let j = randbelow (Suc i + 1) mod (Suc i + 1)
      in shuffle_loop randbelow i (xs[Suc i := xs ! j, j := xs ! Suc i]))"

definition random_shuffle :: "(nat \<Rightarrow> nat) \<Rightarrow> 'a list \<Rightarrow> 'a list" where
  "random_shuffle randbelow xs = shuffle_loop randbelow (length xs - 1) xs"

text \<open>
  Python lists are objects: the caller and the loader hold references to the same list.
  The store maps a reference to the list it holds.
\<close>

type_synonym ref = nat

type_synonym heap = "ref \<Rightarrow> string list"

text \<open>
  The batches of a \<open>torch.utils.data.DataLoader\<close> with \<open>drop_last = True\<close> and the
  default sequential sampler: consecutive groups of \<open>n\<close> items, a shorter last group is
  dropped. (The constructor refuses \<open>n = 0\<close>, see the factory below.)
\<close>

fun batches :: "nat \<Rightarrow> 'a list \<Rightarrow> 'a list list" where
  "batches n xs =
     (if n = 0 \<or> length xs < n then [] else take n xs # batches n (drop n xs))"

declare batches.simps [simp del]

record 'a dataloader =
  dl_items :: "'a list"
  dl_batch_size :: nat

definition dataloader_iter :: "'a dataloader \<Rightarrow> 'a list list" where
  "dataloader_iter d = batches (dl_batch_size d) (dl_items d)"

text \<open>
  \<open>_singlefile_dataloader_factory\<close>. The shard reader
  \<open>BertSingleFileDataset(filepath, shuffle)\<close> rests on the file system, \<open>h5py\<close> and
  \<open>numpy\<close>; it is the parameter \<open>reader\<close>, which gives the items of the shard in the
  order the data set serves them, or the error of the load. The guard
  \<open>ensure_no_core_restriction\<close> belongs to a module outside these sources and is taken
  to pass. The \<open>DataLoader\<close> constructor raises \<open>ValueError\<close> for a batch size that is
  not positive.
\<close>

definition singlefile_dataloader_factory ::
  "(string \<Rightarrow> bool \<Rightarrow> error + 'a list) \<Rightarrow> string \<Rightarrow> nat \<Rightarrow> bool \<Rightarrow> nat
     \<Rightarrow> error + 'a dataloader" where
  "singlefile_dataloader_factory reader filepath bsize shuf nworkers =
     (case reader filepath shuf of
        Inl e \<Rightarrow> Inl e
      | Inr items \<Rightarrow>
          if bsize = 0 then Inl (ValueError ''batch_size should be a positive integer value'')
          else Inr \<lparr>dl_items = items, dl_batch_size = bsize\<rparr>)"

text \<open>
  A future of the process pool is the call that was submitted: the arguments of the
  factory. \<open>fut_index\<close> records the index that \<open>_fetch_future_dataset_or_none\<close> was
  called with; the source passes only the path on, the index is kept here to state which
  shard a load is for.
\<close>

record future =
  fut_index :: nat
  fut_file :: string
  fut_batch_size :: nat
  fut_shuffle :: bool
  fut_num_workers :: nat

definition future_result ::
  "(string \<Rightarrow> bool \<Rightarrow> error + 'a list) \<Rightarrow> future \<Rightarrow> error + 'a dataloader" where
  "future_result reader f =
     singlefile_dataloader_factory reader (fut_file f) (fut_batch_size f) (fut_shuffle f)
       (fut_num_workers f)"

subsection \<open>The loader object\<close>

text \<open>
  The fields of \<open>BertMultiFileDataloader\<close>. \<open>files\<close> is a reference into the store.
  \<open>pool\<close> is \<open>None\<close> or the \<open>ProcessPoolExecutor(1)\<close>, modelled by the loads submitted
  to it whose result has not been taken yet, in the order of submission.
\<close>

record 'a loader =
  num_workers :: nat
  files :: ref
  batch_size :: nat
  loop :: bool
  shuffle :: bool
  file_index :: nat
  sample_index :: nat
  pool :: "future list option"
  dataset :: "'a dataloader option"
  future_dataset :: "future option"

text \<open>
  \<open>__init__\<close>: the list is not copied, and \<open>random.shuffle(self.files)\<close> works on the
  object itself. The constructor returns the new loader and the store it leaves.
\<close>

definition loader_init ::
  "(nat \<Rightarrow> nat) \<Rightarrow> heap \<Rightarrow> ref \<Rightarrow> nat \<Rightarrow> bool \<Rightarrow> bool \<Rightarrow> nat \<Rightarrow> 'a loader \<times> heap" where
  "loader_init randbelow hp files_ref bsize shuf lp nworkers =
     (\<lparr>num_workers = nworkers, files = files_ref, batch_size = bsize, loop = lp,
       shuffle = shuf, file_index = 0, sample_index = 0, pool = None, dataset = None,
       future_dataset = None\<rparr>,
      if shuf then hp(files_ref := random_shuffle randbelow (hp files_ref)) else hp)"

definition create_poolworker_if_not_exists :: "'a loader \<Rightarrow> 'a loader" where
  "create_poolworker_if_not_exists st = (if pool st = None then st\<lparr>pool := Some []\<rparr> else st)"

text \<open>
  \<open>_fetch_future_dataset_or_none(index)\<close>: \<open>index % len(self.files)\<close> raises
  \<open>ZeroDivisionError\<close> on an empty list, \<open>self.pool.submit\<close> raises
  \<open>AttributeError\<close> when there is no pool.
\<close>

definition fetch_future_dataset_or_none :: "heap \<Rightarrow> 'a loader \<Rightarrow> nat \<Rightarrow> error + 'a loader" where
  "fetch_future_dataset_or_none hp st index =
     (let fs = hp (files st) in
      if loop st \<or> index < length fs then
        if length fs = 0 then Inl ZeroDivisionError
        else
          (case pool st of
             None \<Rightarrow> Inl AttributeError
           | Some submitted \<Rightarrow>
               let f = \<lparr>fut_index = index, fut_file = fs ! (index mod length fs),
                        fut_batch_size = batch_size st, fut_shuffle = shuffle st,
                        fut_num_workers = num_workers st\<rparr>
               in Inr (st\<lparr>pool := Some (submitted @ [f]), future_dataset := Some f\<rparr>))
      else Inr (st\<lparr>future_dataset := None\<rparr>))"

definition destroy_poolworker_if_exists :: "'a loader \<Rightarrow> 'a loader" where
  "destroy_poolworker_if_exists st = st\<lparr>pool := None\<rparr>"

definition destroy_datasets_if_exist :: "'a loader \<Rightarrow> 'a loader" where
  "destroy_datasets_if_exist st = st\<lparr>dataset := None, future_dataset := None\<rparr>"

definition reset :: "'a loader \<Rightarrow> 'a loader" where
  "reset st =
     destroy_poolworker_if_exists
       (destroy_datasets_if_exist (st\<lparr>file_index := 0, sample_index := 0\<rparr>))"

subsection \<open>The generator \<open>__iter__\<close>\<close>

text \<open>
  A generator is the loader together with the place where control stands in the body of
  \<open>__iter__\<close>:
  \<^item> \<open>Entry\<close>: created, not started;
  \<^item> \<open>WhileTest\<close>: at the test \<open>self.future_dataset is not None\<close>;
  \<^item> \<open>DelDataset\<close>: before \<open>del self.dataset\<close>;
  \<^item> \<open>Await\<close>: before \<open>self.dataset = self.future_dataset.result(timeout=None)\<close>;
  \<^item> \<open>Prefetch\<close>: before \<open>self._fetch_future_dataset_or_none(self.file_index + 1)\<close>;
  \<^item> \<open>ForHead bs\<close>: at the head of \<open>for batch in self.dataset\<close>, with the batches
    \<open>bs\<close> still to come;
  \<^item> \<open>Suspended bs\<close>: suspended at \<open>yield batch\<close>;
  \<^item> \<open>AfterFor\<close>: before \<open>self.file_index += 1\<close>;
  \<^item> \<open>Finished\<close>: after \<open>self.reset()\<close>, the generator is exhausted.
\<close>

datatype 'a pc =
    Entry
  | WhileTest
  | DelDataset
  | Await
  | Prefetch
  | ForHead "'a list list"
  | Suspended "'a list list"
  | AfterFor
  | Finished

text \<open>
  One step of the body: the batch it yields, if it is the \<open>yield\<close>, and the generator
  after it; or the exception that ends the generator.
\<close>

fun gen_step ::
  "(string \<Rightarrow> bool \<Rightarrow> error + 'a list) \<Rightarrow> heap \<Rightarrow> 'a loader \<times> 'a pc
     \<Rightarrow> error + ('a list option \<times> 'a loader \<times> 'a pc)" where
  "gen_step reader hp (st, Entry) =
     (case fetch_future_dataset_or_none hp (create_poolworker_if_not_exists st) (file_index st) of
        Inl e \<Rightarrow> Inl e
      | Inr st' \<Rightarrow> Inr (None, st', WhileTest))"
| "gen_step reader hp (st, WhileTest) =
     (if future_dataset st \<noteq> None then Inr (None, st, DelDataset)
      else Inr (None, reset st, Finished))"
| "gen_step reader hp (st, DelDataset) = Inr (None, st\<lparr>dataset := None\<rparr>, Await)"
| "gen_step reader hp (st, Await) =
     (case future_dataset st of
        None \<Rightarrow> Inl AttributeError
      | Some f \<Rightarrow>
          (case future_result reader f of
             Inl e \<Rightarrow> Inl e
           | Inr d \<Rightarrow>
               Inr (None, st\<lparr>dataset := Some d, pool := map_option (remove1 f) (pool st)\<rparr>,
                    Prefetch)))"
| "gen_step reader hp (st, Prefetch) =
     (case fetch_future_dataset_or_none hp st (file_index st + 1) of
        Inl e \<Rightarrow> Inl e
      | Inr st' \<Rightarrow>
          (case dataset st' of
             None \<Rightarrow> Inl TypeError
           | Some d \<Rightarrow> Inr (None, st', ForHead (dataloader_iter d))))"
| "gen_step reader hp (st, ForHead []) = Inr (None, st, AfterFor)"
| "gen_step reader hp (st, ForHead (b # bs)) = Inr (Some b, st, Suspended bs)"
| "gen_step reader hp (st, Suspended bs) =
     Inr (None, st\<lparr>sample_index := sample_index st + batch_size st\<rparr>, ForHead bs)"
| "gen_step reader hp (st, AfterFor) =
     Inr (None, st\<lparr>file_index := file_index st + 1, sample_index := 0\<rparr>, WhileTest)"
| "gen_step reader hp (st, Finished) = Inr (None, st, Finished)"

text \<open>
  \<open>next(generator)\<close>: the body runs to its next \<open>yield\<close> or to its end (\<open>None\<close> for the
  batch stands for \<open>StopIteration\<close>). With \<open>loop\<close> set and shards that give no batch the
  body never comes to a \<open>yield\<close>; the result \<open>None\<close> of the partial function stands for
  a call that does not return.
\<close>

partial_function (option) gen_next ::
  "(string \<Rightarrow> bool \<Rightarrow> error + 'a list) \<Rightarrow> heap \<Rightarrow> 'a loader \<times> 'a pc
     \<Rightarrow> (error + ('a list option \<times> 'a loader \<times> 'a pc)) option" where
  "gen_next reader hp s =
     (if snd s = Finished then Some (Inr (None, fst s, Finished))
      else
        (case gen_step reader hp s of
           Inl e \<Rightarrow> Some (Inl e)
         | Inr (y, s') \<Rightarrow>
             (case y of
                Some b \<Rightarrow> Some (Inr (Some b, s'))
              | None \<Rightarrow>
                  if snd s' = Finished then Some (Inr (None, s')) else gen_next reader hp s')))"

text \<open>\<open>list(loader)\<close>: a new generator is run to its end and its batches are collected.\<close>

partial_function (option) gen_collect ::
  "(string \<Rightarrow> bool \<Rightarrow> error + 'a list) \<Rightarrow> heap \<Rightarrow> 'a loader \<times> 'a pc \<Rightarrow> 'a list list
     \<Rightarrow> (error + ('a list list \<times> 'a loader)) option" where
  "gen_collect reader hp s acc =
     (case gen_next reader hp s of
        None \<Rightarrow> None
      | Some (Inl e) \<Rightarrow> Some (Inl e)
      | Some (Inr (y, s')) \<Rightarrow>
          (case y of
             None \<Rightarrow> Some (Inr (acc, fst s'))
           | Some b \<Rightarrow> gen_collect reader hp s' (acc @ [b])))"

definition iterate ::
  "(string \<Rightarrow> bool \<Rightarrow> error + 'a list) \<Rightarrow> heap \<Rightarrow> 'a loader
     \<Rightarrow> (error + ('a list list \<times> 'a loader)) option" where
  "iterate reader hp st = gen_collect reader hp (st, Entry) []"

subsection \<open>\<open>forward\<close>\<close>

text \<open>
  \<open>for idx, _ in enumerate(self): if count <= idx: break\<close>. Each round takes the next
  batch from the generator; the loop ends when the generator is exhausted or at the
  \<open>break\<close>, which leaves the generator suspended at its \<open>yield\<close> (it is dropped, and
  closing it runs no code of the body). The batches taken are returned next to the loader,
  so that their number can be stated.
\<close>

function forward_loop ::
  "(string \<Rightarrow> bool \<Rightarrow> error + 'a list) \<Rightarrow> heap \<Rightarrow> int \<Rightarrow> nat \<Rightarrow> 'a loader \<times> 'a pc
     \<Rightarrow> 'a list list \<Rightarrow> (error + ('a loader \<times> 'a list list)) option" where
  "forward_loop reader hp cnt idx s drawn =
     (case gen_next reader hp s of
        None \<Rightarrow> None
      | Some (Inl e) \<Rightarrow> Some (Inl e)
      | Some (Inr (y, s')) \<Rightarrow>
          (case y of
             None \<Rightarrow> Some (Inr (fst s', drawn))
           | Some b \<Rightarrow>
               if cnt \<le> int idx then Some (Inr (fst s', drawn @ [b]))
               else forward_loop reader hp cnt (Suc idx) s' (drawn @ [b])))"
  by pat_completeness auto
termination
  by (relation "measure (\<lambda>(reader, hp, cnt, idx, s, drawn). nat (cnt - int idx))") auto

definition forward ::
  "(string \<Rightarrow> bool \<Rightarrow> error + 'a list) \<Rightarrow> heap \<Rightarrow> int \<Rightarrow> 'a loader
     \<Rightarrow> (error + ('a loader \<times> 'a list list)) option" where
  "forward reader hp cnt st =
     (case forward_loop reader hp cnt 0 (st, Entry) [] of
        None \<Rightarrow> None
      | Some (Inl e) \<Rightarrow> Some (Inl e)
      | Some (Inr (st', drawn)) \<Rightarrow>
          Some (Inr (destroy_poolworker_if_exists (destroy_datasets_if_exist st'), drawn)))"

section \<open>Properties\<close>

lemma split_on_nonempty: "split_on c s \<noteq> []"
  by (induction s) (auto split: list.splits)

lemma split_on_no_sep: "c \<notin> set s \<Longrightarrow> split_on c s = [s]"
  by (induction s) (auto split: list.splits)

lemma hd_split_on: "hd (split_on c s) = takeWhile (\<lambda>x. x \<noteq> c) s"
  using split_on_nonempty [of c] by (induction s) (auto split: list.splits)

subsection \<open>Environment adapter\<close>




text \<open>
  Claim C2 expects a failure for a master-node descriptor without a colon. The multi-node
  call on such a descriptor returns, with the whole descriptor as \<open>MASTER_ADDR\<close>.
\<close>

theorem descriptor_without_separator_counterexample:
  "\<not> isl (set_environment_variables_for_nccl_backend False 6105 azure_env)
   \<and> projr (set_environment_variables_for_nccl_backend False 6105 azure_env) ''MASTER_ADDR''
       = Some ''10.0.0.4''"
  by (simp add: set_environment_variables_for_nccl_backend_def environ_get_def azure_env_def)

text \<open>
  Claim C2, as the code has it: with \<open>single_node = False\<close>, the launcher variables
  present and a master-node descriptor that contains no colon, the call returns and
  \<open>MASTER_ADDR\<close> is the whole descriptor. The descriptor is split at colons and the
  first piece is taken; nothing checks that a second piece exists.
\<close>

theorem descriptor_without_separator_accepted:
  assumes "env ''OMPI_COMM_WORLD_RANK'' = Some r" and "env ''OMPI_COMM_WORLD_SIZE'' = Some n"
    and "env ''AZ_BATCH_MASTER_NODE'' = Some d" and "CHR '':'' \<notin> set d"
    and "env ''NCCL_SOCKET_IFNAME'' = Some i"
  shows "\<exists>env'. set_environment_variables_for_nccl_backend False master_port env = Inr env'
           \<and> env' ''MASTER_ADDR'' = Some d"
  using assms
  by (simp add: set_environment_variables_for_nccl_backend_def environ_get_def split_on_no_sep
      Let_def)

theorem descriptor_without_separator_accepted_witness:
  "CHR '':'' \<notin> set ''10.0.0.4''
   \<and> (\<exists>env'. set_environment_variables_for_nccl_backend False 6105 azure_env = Inr env'
           \<and> env' ''MASTER_ADDR'' = Some ''10.0.0.4'')"
proof -
  have d: "CHR '':'' \<notin> set ''10.0.0.4''" by simp
  show ?thesis
    using d descriptor_without_separator_accepted [of azure_env "''0''" "''4''" "''10.0.0.4''" "''eth0''" 6105]
    by (simp add: azure_env_def)
qed

text \<open>
  Claim C8: when \<open>MASTER_PORT\<close> is set before a call with \<open>single_node = False\<close> and
  the call returns, \<open>MASTER_PORT\<close> has the value it had before; the default port
  argument does not replace it.
\<close>

theorem master_port_not_overwritten:
  assumes "env ''MASTER_PORT'' = Some p"
    and "set_environment_variables_for_nccl_backend False master_port env = Inr env'"
  shows "env' ''MASTER_PORT'' = Some p"
  using assms
  by (auto simp: set_environment_variables_for_nccl_backend_def environ_get_def Let_def
      split: option.splits list.splits)

theorem master_port_not_overwritten_witness:
  "port_env ''MASTER_PORT'' = Some ''29500''
   \<and> \<not> isl (set_environment_variables_for_nccl_backend False 6105 port_env)
   \<and> projr (set_environment_variables_for_nccl_backend False 6105 port_env) ''MASTER_PORT''
       = Some ''29500''"
proof -
  have p: "port_env ''MASTER_PORT'' = Some ''29500''"
    by (simp add: port_env_def)
  have r: "\<not> isl (set_environment_variables_for_nccl_backend False 6105 port_env)"
    by (simp add: set_environment_variables_for_nccl_backend_def environ_get_def port_env_def)
  then have "set_environment_variables_for_nccl_backend False 6105 port_env
      = Inr (projr (set_environment_variables_for_nccl_backend False 6105 port_env))"
    by simp
  from master_port_not_overwritten [OF p this] p r show ?thesis by simp
qed


text \<open>
  The value of \<open>NCCL_SOCKET_IFNAME\<close> is read for the log line before the variable is
  assigned, so a call in an environment without it ends in \<open>KeyError\<close> there.
\<close>

lemma ifname_unset_raises:
  "set_environment_variables_for_nccl_backend False 6105 (azure_env(''NCCL_SOCKET_IFNAME'' := None))
     = Inl (KeyError ''NCCL_SOCKET_IFNAME'')"
  by (simp add: set_environment_variables_for_nccl_backend_def environ_get_def azure_env_def)



subsection \<open>Label reconstruction\<close>

lemma upt_length_Cons: "[0 ..< length (x # xs)] = 0 # map Suc [0 ..< length xs]"
  by (simp add: upt_conv_Cons map_Suc_upt del: upt_Suc)

lemma padded_mask_indices_Cons:
  "padded_mask_indices (x # xs)
     = (if x = 0 then [0] else []) @ map Suc (padded_mask_indices xs)"
  unfolding padded_mask_indices_def upt_length_Cons
  by (simp add: filter_map comp_def)

lemma padded_mask_indices_empty:
  "padded_mask_indices xs = [] \<longleftrightarrow> 0 \<notin> set xs"
  by (induction xs) (simp_all add: padded_mask_indices_Cons, simp add: padded_mask_indices_def)

lemma hd_padded_mask_indices:
  "0 \<in> set xs \<Longrightarrow> hd (padded_mask_indices xs) = length (takeWhile (\<lambda>p. p \<noteq> 0) xs)"
proof (induction xs)
  case Nil
  then show ?case by simp
next
  case (Cons x xs)
  show ?case
  proof (cases "x = 0")
    case True
    then show ?thesis by (simp add: padded_mask_indices_Cons)
  next
    case False
    with Cons.prems have in_xs: "0 \<in> set xs" by simp
    then have "padded_mask_indices xs \<noteq> []"
      by (simp add: padded_mask_indices_empty)
    with False Cons.IH [OF in_xs] show ?thesis
      by (simp add: padded_mask_indices_Cons hd_map)
  qed
qed

text \<open>
  Claim C3, as the code has it: the masked token count is the index of the first zero
  entry of \<open>masked_positions\<close> when the vector has a zero entry at any index, and
  \<open>max_predictions\<close> when it has none. The vector is not cut to its first
  \<open>max_predictions\<close> entries before the search.
\<close>

theorem masked_token_count_first_zero:
  "get_masked_token_count max_predictions masked_positions =
     (if 0 \<in> set masked_positions
      then length (takeWhile (\<lambda>p. p \<noteq> 0) masked_positions)
      else max_predictions)"
  by (simp add: get_masked_token_count_def padded_mask_indices_empty hd_padded_mask_indices)

text \<open>
  Claim C3 says that a zero at an index beyond \<open>max_predictions\<close> leaves the count at
  \<open>max_predictions\<close>. With \<open>max_predictions = 2\<close> and the only zero at index 3 the
  code returns 3, where the specification's wording gives 2.
\<close>

theorem masked_token_count_counterexample:
  "get_masked_token_count 2 [5, 3, 7, 0] = 3 \<and> spec_masked_token_count 2 [5, 3, 7, 0] = 2"
  by (simp add: get_masked_token_count_def padded_mask_indices_def spec_masked_token_count_def
      upt_rec [of 0] upt_rec [of 1] upt_rec [of 2] upt_rec[of 3] upt_rec[of 4])

text \<open>On vectors of at most \<open>max_predictions\<close> entries the two readings agree.\<close>

lemma masked_token_count_within_cap:
  "length masked_positions \<le> max_predictions \<Longrightarrow>
   get_masked_token_count max_predictions masked_positions
     = spec_masked_token_count max_predictions masked_positions"
  by (simp add: get_masked_token_count_def padded_mask_indices_empty hd_padded_mask_indices
      spec_masked_token_count_def)


lemma index_writes_in_range:
  assumes "length ps = length vs"
    and "\<forall>p \<in> set ps. 0 \<le> p \<and> p < int (length labels)"
    and "distinct ps"
  shows "\<exists>r. index_writes labels ps vs = Inr r \<and> length r = length labels
           \<and> (\<forall>i < length ps. r ! nat (ps ! i) = vs ! i)
           \<and> (\<forall>j < length labels. int j \<notin> set ps \<longrightarrow> r ! j = labels ! j)"
  using assms
proof (induction ps vs arbitrary: labels rule: list_induct2)
  case Nil
  then show ?case by simp
next
  case (Cons p ps v vs)
  let ?l = "labels[nat p := v]"
  from Cons.prems have p: "0 \<le> p" "p < int (length labels)" and notin: "p \<notin> set ps"
    and rest: "\<forall>q \<in> set ps. 0 \<le> q \<and> q < int (length ?l)" and d: "distinct ps"
    by simp_all
  from Cons.IH [OF rest d] obtain r where r: "index_writes ?l ps vs = Inr r"
    and len: "length r = length labels"
    and hit: "\<forall>i < length ps. r ! nat (ps ! i) = vs ! i"
    and miss: "\<forall>j < length labels. int j \<notin> set ps \<longrightarrow> r ! j = ?l ! j"
    by auto
  have step: "index_writes labels (p # ps) (v # vs) = Inr r"
    using p r by (simp add: Let_def)
  have np: "nat p < length labels" "int (nat p) \<notin> set ps"
    using p notin by simp_all
  with miss have first: "r ! nat p = v" by simp
  have hits: "\<forall>i < length (p # ps). r ! nat ((p # ps) ! i) = (v # vs) ! i"
  proof (intro allI impI)
    fix i assume "i < length (p # ps)"
    then show "r ! nat ((p # ps) ! i) = (v # vs) ! i"
      using first hit by (cases i) simp_all
  qed
  have misses: "\<forall>j < length labels. int j \<notin> set (p # ps) \<longrightarrow> r ! j = labels ! j"
  proof (intro allI impI)
    fix j assume j: "j < length labels" "int j \<notin> set (p # ps)"
    then have "j \<noteq> nat p" using p by auto
    with j miss show "r ! j = labels ! j" by simp
  qed
  from step len hits misses show ?case by blast
qed

text \<open>
  Claim C4, as the code has it: for every sample whose masked values are as many as its
  masked positions, and whose first \<open>masked_token_count\<close> positions are pairwise
  distinct and lie in \<open>[0, max_seq_length)\<close>, the label vector is built, has length
  \<open>max_seq_length\<close>, holds at each of these positions the corresponding entry of
  \<open>masked_values\<close>, and is \<open>-1\<close> everywhere else.
\<close>

theorem dense_labels_from_valid_positions:
  assumes "length masked_values = length masked_positions"
    and "\<forall>p \<in> set (take (get_masked_token_count max_predictions masked_positions) masked_positions).
           0 \<le> p \<and> p < int max_seq_length"
    and "distinct (take (get_masked_token_count max_predictions masked_positions) masked_positions)"
  shows "\<exists>labels.
           build_masked_lm_labels max_seq_length max_predictions masked_positions masked_values
             = Inr labels
           \<and> length labels = max_seq_length
           \<and> (\<forall>i < min (get_masked_token_count max_predictions masked_positions)
                      (length masked_positions).
                 labels ! nat (masked_positions ! i) = masked_values ! i)
           \<and> (\<forall>j < max_seq_length.
                 int j \<notin> set (take (get_masked_token_count max_predictions masked_positions)
                                masked_positions)
                 \<longrightarrow> labels ! j = - 1)"
proof -
  let ?k = "get_masked_token_count max_predictions masked_positions"
  let ?ps = "take ?k masked_positions" and ?vs = "take ?k masked_values"
  let ?l = "replicate max_seq_length (- 1 :: int)"
  have len: "length ?ps = length ?vs" using assms(1) by simp
  have rng: "\<forall>p \<in> set ?ps. 0 \<le> p \<and> p < int (length ?l)" using assms(2) by simp
  from index_writes_in_range [OF len rng assms(3)]
  obtain r where r: "index_writes ?l ?ps ?vs = Inr r" and l: "length r = max_seq_length"
    and hit: "\<forall>i < length ?ps. r ! nat (?ps ! i) = ?vs ! i"
    and miss: "\<forall>j < length ?l. int j \<notin> set ?ps \<longrightarrow> r ! j = ?l ! j"
    by auto
  have b: "build_masked_lm_labels max_seq_length max_predictions masked_positions masked_values
             = Inr r"
    using r len by (simp add: build_masked_lm_labels_def index_put_def Let_def)
  have h: "\<forall>i < min ?k (length masked_positions). r ! nat (masked_positions ! i) = masked_values ! i"
    using hit by simp
  have m: "\<forall>j < max_seq_length. int j \<notin> set ?ps \<longrightarrow> r ! j = - 1"
    using miss by simp
  from b l h m show ?thesis by blast
qed

text \<open>
  Claim C4 asks only that the positions be less than \<open>max_seq_length\<close>. The position
  \<open>-9\<close> is, and the write into a vector of length 4 raises \<open>IndexError\<close>. With the
  position 3 listed twice, for the values 10 and 20, position 3 cannot hold both.
\<close>

theorem dense_labels_counterexample:
  "build_masked_lm_labels 4 1 [- 9] [7] = Inl IndexError
   \<and> build_masked_lm_labels 4 2 [3, 3] [10, 20] = Inr [- 1, - 1, - 1, 20]"
  by (simp add: build_masked_lm_labels_def get_masked_token_count_def padded_mask_indices_def
      index_put_def Let_def eval_nat_numeral)

theorem dense_labels_from_valid_positions_witness:
  "get_masked_token_count 3 [2, 4, 0] = 2
   \<and> distinct (take 2 [2, 4, 0 :: int])
   \<and> (\<exists>labels. build_masked_lm_labels 6 3 [2, 4, 0] [10, 20, 0] = Inr labels
         \<and> length labels = 6 \<and> labels ! 2 = 10 \<and> labels ! 4 = 20
         \<and> labels ! 0 = - 1 \<and> labels ! 5 = - 1)"
proof -
  have k: "get_masked_token_count 3 [2, 4, 0] = 2"
    by (simp add: get_masked_token_count_def padded_mask_indices_def)
  have t: "take 2 [2, 4, 0 :: int] = [2, 4]"
    by (simp add: eval_nat_numeral)
  have len: "length [10, 20, 0 :: int] = length [2, 4, 0 :: int]" by simp
  have rng: "\<forall>p \<in> set (take (get_masked_token_count 3 [2, 4, 0]) [2, 4, 0]).
               0 \<le> p \<and> p < int 6"
    by (simp add: k t)
  have d: "distinct (take (get_masked_token_count 3 [2, 4, 0]) [2, 4, 0 :: int])"
    by (simp add: k t)
  from dense_labels_from_valid_positions [OF len rng d]
  obtain labels where b: "build_masked_lm_labels 6 3 [2, 4, 0] [10, 20, 0] = Inr labels"
    and l: "length labels = 6"
    and hit: "\<forall>i < min (get_masked_token_count 3 [2, 4, 0]) (length [2, 4, 0 :: int]).
                labels ! nat ([2, 4, 0] ! i) = [10, 20, 0] ! i"
    and miss: "\<forall>j < 6. int j \<notin> set (take (get_masked_token_count 3 [2, 4, 0]) [2, 4, 0])
                \<longrightarrow> labels ! j = - 1"
    by blast
  from hit [rule_format, of 0] hit [rule_format, of 1] have h: "labels ! 2 = 10" "labels ! 4 = 20"
    by (simp_all add: k)
  from miss [rule_format, of 0] miss [rule_format, of 5] have m: "labels ! 0 = - 1" "labels ! 5 = - 1"
    by (simp_all add: k t)
  from k t b l h m show ?thesis by auto
qed

subsection \<open>Construction of the loader\<close>

lemma length_shuffle_loop: "length (shuffle_loop rb i xs) = length xs"
  by (induction i arbitrary: xs) (simp_all add: Let_def)

lemma mset_shuffle_loop: "i < length xs \<Longrightarrow> mset (shuffle_loop rb i xs) = mset xs"
proof (induction i arbitrary: xs)
  case 0
  then show ?case by simp
next
  case (Suc i)
  let ?j = "rb (Suc i + 1) mod (Suc i + 1)"
  let ?ys = "xs[Suc i := xs ! ?j, ?j := xs ! Suc i]"
  have "?j < Suc i + 1" by (rule mod_less_divisor) simp
  with Suc.prems have j: "?j < length xs" by linarith
  have "mset ?ys = mset xs"
    using mset_swap [OF j Suc.prems] .
  moreover have "i < length ?ys" using Suc.prems by simp
  ultimately show ?case
    using Suc.IH [of ?ys] by (simp add: Let_def)
qed

lemma mset_random_shuffle: "mset (random_shuffle rb xs) = mset xs"
  by (cases xs) (simp_all add: random_shuffle_def mset_shuffle_loop)

text \<open>
  Claim C10: the constructor keeps the reference it is given as \<open>files\<close>. With
  \<open>shuffle = True\<close> the list behind that reference, the caller's own list, holds a
  permutation of its former entries afterwards, the one that \<open>random.shuffle\<close> makes,
  and no other list of the store changes; with \<open>shuffle = False\<close> the store is left as
  it was.
\<close>

theorem init_shuffles_callers_list:
  assumes "loader_init randbelow hp files_ref bsize shuf lp nworkers = (st, hp')"
  shows "files st = files_ref
         \<and> (shuf \<longrightarrow> hp' files_ref = random_shuffle randbelow (hp files_ref)
                    \<and> mset (hp' files_ref) = mset (hp files_ref)
                    \<and> (\<forall>r. r \<noteq> files_ref \<longrightarrow> hp' r = hp r))
         \<and> (\<not> shuf \<longrightarrow> hp' = hp)"
  using assms by (auto simp: loader_init_def mset_random_shuffle)

theorem init_shuffles_callers_list_witness:
  "files (fst (loader_init (\<lambda>n. 0) (\<lambda>r. [''a'', ''b'', ''c'']) 7 1 True False 1 :: nat loader \<times> heap)) = 7
   \<and> snd (loader_init (\<lambda>n. 0) (\<lambda>r. [''a'', ''b'', ''c'']) 7 1 True False 1 :: nat loader \<times> heap) 7
       = [''b'', ''c'', ''a'']
   \<and> snd (loader_init (\<lambda>n. 0) (\<lambda>r. [''a'', ''b'', ''c'']) 7 1 False False 1 :: nat loader \<times> heap)
       = (\<lambda>r. [''a'', ''b'', ''c''])"
proof -
  let ?hp = "\<lambda>r :: ref. [''a'', ''b'', ''c'']"
  let ?shuffled = "loader_init (\<lambda>n. 0) ?hp 7 1 True False 1 :: nat loader \<times> heap"
  let ?plain = "loader_init (\<lambda>n. 0) ?hp 7 1 False False 1 :: nat loader \<times> heap"
  have s: "?shuffled = (fst ?shuffled, snd ?shuffled)" and p: "?plain = (fst ?plain, snd ?plain)"
    by simp_all
  have r: "random_shuffle (\<lambda>n. 0) [''a'', ''b'', ''c''] = [''b'', ''c'', ''a'']"
    by code_simp
  from init_shuffles_callers_list [OF s] init_shuffles_callers_list [OF p] r
  show ?thesis by simp
qed

end
